theory Spec2Isabelle
  imports Complex_Main
begin

section \<open>JavaScript numbers\<close>

text \<open>
  The viewer computes with JavaScript numbers. A number is modelled as an exact real or one
  of the three special values; the arithmetic below follows the IEEE rules for the special
  values (a division by zero gives an infinity or NaN, never an exception). The sign of
  zero is not modelled: every zero is taken as positive. The arithmetic of the geometry
  (\<open>jadd\<close>, \<open>jsub\<close>, \<open>jmul\<close>, \<open>jdiv\<close>) is exact on finite operands. Where a number
  is read from text, and where the number read is multiplied in \<open>getBuildingHeight\<close>, the
  result is rounded to the nearest 64-bit float (\<open>toDouble\<close> below), so that text of any
  size gives the number the program gets, infinite or zero where the float is.
\<close>

datatype jsnum = JNum real | JPosInf | JNegInf | JNaN

fun isNaN :: "jsnum \<Rightarrow> bool" where
  "isNaN JNaN = True"
| "isNaN _ = False"

fun isFiniteNum :: "jsnum \<Rightarrow> bool" where
  "isFiniteNum (JNum _) = True"
| "isFiniteNum _ = False"

fun jneg :: "jsnum \<Rightarrow> jsnum" where
  "jneg (JNum a) = JNum (- a)"
| "jneg JPosInf = JNegInf"
| "jneg JNegInf = JPosInf"
| "jneg JNaN = JNaN"

fun jadd :: "jsnum \<Rightarrow> jsnum \<Rightarrow> jsnum" where
  "jadd (JNum a) (JNum b) = JNum (a + b)"
| "jadd (JNum a) JPosInf = JPosInf"
| "jadd (JNum a) JNegInf = JNegInf"
| "jadd JPosInf (JNum b) = JPosInf"
| "jadd JNegInf (JNum b) = JNegInf"
| "jadd JPosInf JPosInf = JPosInf"
| "jadd JNegInf JNegInf = JNegInf"
| "jadd JPosInf JNegInf = JNaN"
| "jadd JNegInf JPosInf = JNaN"
| "jadd JNaN _ = JNaN"
| "jadd _ JNaN = JNaN"

definition jsub :: "jsnum \<Rightarrow> jsnum \<Rightarrow> jsnum" where
  "jsub a b = jadd a (jneg b)"

text \<open>The infinity with the sign of a non-zero real.\<close>

definition infOfSign :: "real \<Rightarrow> jsnum" where
  "infOfSign s = (if 0 < s then JPosInf else JNegInf)"

fun jmul :: "jsnum \<Rightarrow> jsnum \<Rightarrow> jsnum" where
  "jmul (JNum a) (JNum b) = JNum (a * b)"
| "jmul (JNum a) JPosInf = (if a = 0 then JNaN else infOfSign a)"
| "jmul (JNum a) JNegInf = (if a = 0 then JNaN else infOfSign (- a))"
| "jmul JPosInf (JNum b) = (if b = 0 then JNaN else infOfSign b)"
| "jmul JNegInf (JNum b) = (if b = 0 then JNaN else infOfSign (- b))"
| "jmul JPosInf JPosInf = JPosInf"
| "jmul JNegInf JNegInf = JPosInf"
| "jmul JPosInf JNegInf = JNegInf"
| "jmul JNegInf JPosInf = JNegInf"
| "jmul JNaN _ = JNaN"
| "jmul _ JNaN = JNaN"

fun jdiv :: "jsnum \<Rightarrow> jsnum \<Rightarrow> jsnum" where
  "jdiv (JNum a) (JNum b) =
     (if b = 0 then (if a = 0 then JNaN else infOfSign a) else JNum (a / b))"
| "jdiv (JNum a) JPosInf = JNum 0"
| "jdiv (JNum a) JNegInf = JNum 0"
| "jdiv JPosInf (JNum b) = (if 0 \<le> b then JPosInf else JNegInf)"
| "jdiv JNegInf (JNum b) = (if 0 \<le> b then JNegInf else JPosInf)"
| "jdiv JPosInf JPosInf = JNaN"
| "jdiv JPosInf JNegInf = JNaN"
| "jdiv JNegInf JPosInf = JNaN"
| "jdiv JNegInf JNegInf = JNaN"
| "jdiv JNaN _ = JNaN"
| "jdiv _ JNaN = JNaN"

text \<open>The comparison \<open>a < b\<close> and the strict equality \<open>a === b\<close>: both are false on NaN.\<close>

fun jlt :: "jsnum \<Rightarrow> jsnum \<Rightarrow> bool" where
  "jlt (JNum a) (JNum b) = (a < b)"
| "jlt (JNum a) JPosInf = True"
| "jlt JNegInf (JNum b) = True"
| "jlt JNegInf JPosInf = True"
| "jlt _ _ = False"

definition jeq :: "jsnum \<Rightarrow> jsnum \<Rightarrow> bool" where
  "jeq a b = (\<not> isNaN a \<and> a = b)"

text \<open>
  \<open>Math.min(...xs)\<close> and \<open>Math.max(...xs)\<close>: NaN as soon as one argument is NaN,
  \<open>Infinity\<close> and \<open>-Infinity\<close> on no argument.
\<close>

definition jmin2 :: "jsnum \<Rightarrow> jsnum \<Rightarrow> jsnum" where
  "jmin2 a b = (if isNaN a \<or> isNaN b then JNaN else if jlt b a then b else a)"

definition jmax2 :: "jsnum \<Rightarrow> jsnum \<Rightarrow> jsnum" where
  "jmax2 a b = (if isNaN a \<or> isNaN b then JNaN else if jlt a b then b else a)"

definition Math_min :: "jsnum list \<Rightarrow> jsnum" where
  "Math_min xs = foldl jmin2 JPosInf xs"

definition Math_max :: "jsnum list \<Rightarrow> jsnum" where
  "Math_max xs = foldl jmax2 JNegInf xs"

text \<open>A number in a condition (\<open>n || d\<close>): zero and NaN are falsy.\<close>

fun truthyNum :: "jsnum \<Rightarrow> bool" where
  "truthyNum (JNum a) = (a \<noteq> 0)"
| "truthyNum JNaN = False"
| "truthyNum _ = True"

section \<open>Rounding to a 64-bit float\<close>

text \<open>
  The finite floats are the numbers \<open>m * 2 ^ (e - 52)\<close> with \<open>m\<close> an integer below
  \<open>2 ^ 53\<close> in absolute value and \<open>e\<close> from \<open>-1022\<close> to \<open>1023\<close>. A real is rounded to
  the nearest of them, a tie going to the even \<open>m\<close>, and to an infinity when the rounded
  value reaches \<open>2 ^ 1024\<close>.
\<close>

text \<open>The number of binary digits of a natural number.\<close>

fun bitLength :: "nat \<Rightarrow> nat" where
  "bitLength n = (if n = 0 then 0 else Suc (bitLength (n div 2)))"

declare bitLength.simps [simp del]

definition pow2 :: "int \<Rightarrow> real" where
  "pow2 e = (if 0 \<le> e then 2 ^ nat e else 1 / 2 ^ nat (- e))"

text \<open>The exponent \<open>e\<close> of a positive real \<open>a\<close>: \<open>2 ^ e \<le> a < 2 ^ (e + 1)\<close>.\<close>

definition ilog2 :: "real \<Rightarrow> int" where
  "ilog2 a =
     (if 1 \<le> a then int (bitLength (nat \<lfloor>a\<rfloor>)) - 1
      else (let k = int (bitLength (nat \<lfloor>1 / a\<rfloor>))
            in if pow2 (1 - k) \<le> a then 1 - k else - k))"

definition roundHalfEven :: "real \<Rightarrow> int" where
  "roundHalfEven q =
     (let m = \<lfloor>q\<rfloor>; r = q - of_int m
      in if r < 1 / 2 then m else if 1 / 2 < r then m + 1 else if even m then m else m + 1)"

definition toDouble :: "real \<Rightarrow> jsnum" where
  "toDouble x =
     (if x = 0 then JNum 0
      else
        (let a = \<bar>x\<bar>
         in if 2 ^ 1024 \<le> a then infOfSign x
            else
              (let e = (if a < pow2 (- 1022) then - 1022 else ilog2 a);
                   u = pow2 (e - 52);
                   y = of_int (roundHalfEven (a / u)) * u
               in if 2 ^ 1024 \<le> y then infOfSign x else JNum (sgn x * y))))"

text \<open>The rounding of the result of an exact operation.\<close>

fun roundNum :: "jsnum \<Rightarrow> jsnum" where
  "roundNum (JNum x) = toDouble x"
| "roundNum v = v"

section \<open>parseFloat and parseInt\<close>

text \<open>
  Strings are sequences of code units below 256. Both functions skip leading white space,
  read the longest prefix that is a literal, and return NaN when there is none; the value
  of the literal is rounded to the nearest float, as the engines do (the language lets an
  engine drop the digits after the twentieth).
\<close>

definition isWhiteSpace :: "char \<Rightarrow> bool" where
  "isWhiteSpace c = (of_char c \<in> {9, 10, 11, 12, 13, 32, 160 :: nat})"

definition isDigit :: "char \<Rightarrow> bool" where
  "isDigit c = (48 \<le> (of_char c :: nat) \<and> (of_char c :: nat) \<le> 57)"

definition digitVal :: "char \<Rightarrow> nat" where
  "digitVal c = of_char c - 48"

definition digitsVal :: "string \<Rightarrow> nat" where
  "digitsVal ds = foldl (\<lambda>acc c. 10 * acc + digitVal c) 0 ds"

definition isHexDigit :: "char \<Rightarrow> bool" where
  "isHexDigit c = (isDigit c \<or> (65 \<le> (of_char c :: nat) \<and> (of_char c :: nat) \<le> 70)
                    \<or> (97 \<le> (of_char c :: nat) \<and> (of_char c :: nat) \<le> 102))"

definition hexDigitVal :: "char \<Rightarrow> nat" where
  "hexDigitVal c = (if isDigit c then of_char c - 48
                    else if (of_char c :: nat) \<le> 70 then of_char c - 55
                    else of_char c - 87)"

definition hexDigitsVal :: "string \<Rightarrow> nat" where
  "hexDigitsVal ds = foldl (\<lambda>acc c. 16 * acc + hexDigitVal c) 0 ds"

text \<open>An optional sign: the factor and the rest of the string.\<close>

fun readSign :: "string \<Rightarrow> real \<times> string" where
  "readSign [] = (1, [])"
| "readSign (c # cs) =
     (if c = CHR ''+'' then (1, cs) else if c = CHR ''-'' then (- 1, cs) else (1, c # cs))"

text \<open>
  The exponent part of a decimal literal, as a power of ten: it counts only when at least
  one digit follows the \<open>e\<close> and its optional sign.
\<close>

fun readExponent :: "string \<Rightarrow> real" where
  "readExponent [] = 1"
| "readExponent (c # cs) =
     (if c = CHR ''e'' \<or> c = CHR ''E'' then
        (let (esign, r) = readSign cs; ed = takeWhile isDigit r
         in if ed = [] then 1
            else if esign < 0 then 1 / 10 ^ digitsVal ed else 10 ^ digitsVal ed)
      else 1)"

definition parseFloat :: "string \<Rightarrow> jsnum" where
  "parseFloat s =
     (let (sign, s2) = readSign (dropWhile isWhiteSpace s)
      in if take 8 s2 = ''Infinity'' then (if 0 < sign then JPosInf else JNegInf)
         else
           (let ip = takeWhile isDigit s2;
                r1 = dropWhile isDigit s2;
                (fp, r2) = (case r1 of
                              [] \<Rightarrow> ([], r1)
                            | c # r \<Rightarrow> if c = CHR ''.''
                                       then (takeWhile isDigit r, dropWhile isDigit r)
                                       else ([], r1))
            in if ip = [] \<and> fp = [] then JNaN
               else toDouble
                      (sign * (real (digitsVal ip) + real (digitsVal fp) / 10 ^ length fp)
                         * readExponent r2)))"

text \<open>
  \<open>parseInt\<close> with no radix: base 16 after a prefix \<open>0x\<close> or \<open>0X\<close>, base 10 otherwise.
\<close>

definition parseInt :: "string \<Rightarrow> jsnum" where
  "parseInt s =
     (let (sign, s2) = readSign (dropWhile isWhiteSpace s)
      in if take 2 s2 = ''0x'' \<or> take 2 s2 = ''0X'' then
           (let ds = takeWhile isHexDigit (drop 2 s2)
            in if ds = [] then JNaN else toDouble (sign * real (hexDigitsVal ds)))
         else
           (let ds = takeWhile isDigit s2
            in if ds = [] then JNaN else toDouble (sign * real (digitsVal ds))))"

section \<open>Data\<close>

record coord =
  lat :: jsnum
  lon :: jsnum

record OSMBounds =
  north :: jsnum
  south :: jsnum
  east :: jsnum
  west :: jsnum

record ModelDimensions =
  width :: jsnum
  depth :: jsnum

record building =
  geometry :: "coord list"
  tags :: "string \<rightharpoonup> string"

section \<open>getBuildingHeight\<close>

text \<open>A tag in a condition: a missing tag and the empty string are falsy.\<close>

fun truthyTag :: "string option \<Rightarrow> bool" where
  "truthyTag None = False"
| "truthyTag (Some s) = (s \<noteq> [])"

definition buildingTypeHeight :: "string option \<Rightarrow> jsnum" where
  "buildingTypeHeight buildingType =
     (if buildingType = Some ''house'' \<or> buildingType = Some ''residential'' then JNum 6
      else if buildingType = Some ''apartments'' then JNum 15
      else if buildingType = Some ''commercial'' \<or> buildingType = Some ''retail'' then JNum 4
      else if buildingType = Some ''industrial'' then JNum 8
      else if buildingType = Some ''office'' then JNum 20
      else if buildingType = Some ''hospital'' then JNum 12
      else if buildingType = Some ''school'' then JNum 4
      else if buildingType = Some ''church'' then JNum 15
      else JNum 6)"

definition getBuildingHeight :: "building \<Rightarrow> jsnum" where
  "getBuildingHeight b =
     (let height = JNum 6
      in if truthyTag (tags b ''height'') then
           (case tags b ''height'' of
              None \<Rightarrow> height
            | Some h \<Rightarrow>
                (let parsedHeight = parseFloat h
                 in if \<not> isNaN parsedHeight then parsedHeight else height))
         else if truthyTag (tags b ''building:levels'') then
           (case tags b ''building:levels'' of
              None \<Rightarrow> height
            | Some l \<Rightarrow>
                (let levels = parseInt l
                 in if \<not> isNaN levels then roundNum (jmul levels (JNum 3)) else height))
         else buildingTypeHeight (tags b ''building''))"

section \<open>Geometry values of the rendering library\<close>

text \<open>
  The two-dimensional vectors, shapes and buffer geometries belong to the rendering
  library, not to the viewer; what the viewer uses of them is modelled here. A position
  attribute (three numbers per vertex) is the list of its vertices, so its \<open>count\<close> is
  the length of the list; an index is a list of vertex numbers, absent on a geometry that
  is not indexed. A new, empty buffer geometry has no vertex and no index. A shape is the
  list of the points of its outline and whether the outline was closed explicitly.
\<close>

datatype Vector2 = Vector2 (vx: jsnum) (vy: jsnum)

record Shape =
  pts :: "Vector2 list"
  closed :: bool

type_synonym vertex = "jsnum \<times> jsnum \<times> jsnum"

record BufferGeometry =
  position :: "vertex list"
  index :: "nat list option"

definition emptyGeometry :: BufferGeometry where
  "emptyGeometry = \<lparr>position = [], index = None\<rparr>"

text \<open>
  A shape built from a list of points starts its outline at the first point: on the empty
  list the constructor reads a coordinate of \<open>undefined\<close> and throws a type error.
\<close>

datatype error = TypeError

definition newShape :: "Vector2 list \<Rightarrow> error + Shape" where
  "newShape points =
     (if points = [] then Inl TypeError else Inr \<lparr>pts = points, closed = False\<rparr>)"

text \<open>
  The triangles that a geometry draws, as triples of vertex numbers: three consecutive
  entries of the index, or three consecutive vertices when the geometry has no index. A
  geometry with an index of no entry draws nothing.
\<close>

fun triples :: "nat list \<Rightarrow> (nat \<times> nat \<times> nat) list" where
  "triples (a # b # c # rest) = (a, b, c) # triples rest"
| "triples _ = []"

definition triangles :: "BufferGeometry \<Rightarrow> (nat \<times> nat \<times> nat) list" where
  "triangles g =
     (case index g of
        None \<Rightarrow> triples [0 ..< length (position g)]
      | Some ix \<Rightarrow> triples ix)"

text \<open>
  The extrusion of a shape by a depth with no bevel is the library's: the viewer's functions
  take it as the parameter \<open>extrude\<close>.
\<close>

type_synonym extruder = "Shape \<Rightarrow> jsnum \<Rightarrow> BufferGeometry"

fun jsqrt :: "jsnum \<Rightarrow> jsnum" where
  "jsqrt (JNum a) = (if a < 0 then JNaN else JNum (sqrt a))"
| "jsqrt JPosInf = JPosInf"
| "jsqrt JNegInf = JNaN"
| "jsqrt JNaN = JNaN"

definition subVectors :: "Vector2 \<Rightarrow> Vector2 \<Rightarrow> Vector2" where
  "subVectors a b = Vector2 (jsub (vx a) (vx b)) (jsub (vy a) (vy b))"

definition addVectors :: "Vector2 \<Rightarrow> Vector2 \<Rightarrow> Vector2" where
  "addVectors a b = Vector2 (jadd (vx a) (vx b)) (jadd (vy a) (vy b))"

definition multiplyScalar :: "Vector2 \<Rightarrow> jsnum \<Rightarrow> Vector2" where
  "multiplyScalar v s = Vector2 (jmul (vx v) s) (jmul (vy v) s)"

definition vlength :: "Vector2 \<Rightarrow> jsnum" where
  "vlength v = jsqrt (jadd (jmul (vx v) (vx v)) (jmul (vy v) (vy v)))"

text \<open>\<open>normalize\<close> divides by the length, or by 1 when the length is zero or NaN.\<close>

definition normalize :: "Vector2 \<Rightarrow> Vector2" where
  "normalize v =
     (let l = vlength v; d = (if truthyNum l then l else JNum 1)
      in multiplyScalar v (jdiv (JNum 1) d))"

section \<open>Building3D\<close>

text \<open>
  The height mapping that \<open>Scene3D\<close> hands to every building: the source range
  \<open>min\<close>, \<open>max\<close> and the target range \<open>minMM\<close>, \<open>maxMM\<close>.
\<close>

record heightMapping =
  min_h :: jsnum
  max_h :: jsnum
  minMM :: jsnum
  maxMM :: jsnum

definition Building3D_points ::
  "building \<Rightarrow> OSMBounds \<Rightarrow> ModelDimensions option \<Rightarrow> Vector2 list" where
  "Building3D_points b bounds modelDimensions =
     (let latRange = jsub (north bounds) (south bounds);
          lonRange = jsub (east bounds) (west bounds);
          scaleX = (case modelDimensions of Some d \<Rightarrow> width d | None \<Rightarrow> JNum 1000);
          scaleZ = (case modelDimensions of Some d \<Rightarrow> depth d | None \<Rightarrow> JNum 1000)
      in map (\<lambda>c.
            Vector2
              (jmul (jsub (jdiv (jsub (lon c) (west bounds)) lonRange) (JNum 0.5)) scaleX)
              (jmul (jneg (jsub (jdiv (jsub (lat c) (south bounds)) latRange) (JNum 0.5)))
                 scaleZ))
           (geometry b))"

definition Building3D_height :: "heightMapping \<Rightarrow> jsnum \<Rightarrow> jsnum" where
  "Building3D_height hm originalHeight =
     (let normalizedHeight =
            jdiv (jsub originalHeight (min_h hm)) (jsub (max_h hm) (min_h hm));
          mappedHeight = jadd (minMM hm) (jmul normalizedHeight (jsub (maxMM hm) (minMM hm)))
      in mappedHeight)"

text \<open>
  The geometry of the mesh that the component renders, or the error thrown while the shape
  is built.
\<close>

definition Building3D ::
  "extruder \<Rightarrow> building \<Rightarrow> OSMBounds \<Rightarrow> ModelDimensions option \<Rightarrow> jsnum \<Rightarrow> heightMapping
     \<Rightarrow> error + BufferGeometry" where
  "Building3D extrude b bounds modelDimensions originalHeight hm =
     (case newShape (Building3D_points b bounds modelDimensions) of
        Inl e \<Rightarrow> Inl e
      | Inr shape \<Rightarrow>
          (let height = Building3D_height hm originalHeight
           in Inr (extrude shape height)))"

section \<open>Foundation3D\<close>

definition Foundation3D_points ::
  "building \<Rightarrow> OSMBounds \<Rightarrow> ModelDimensions option \<Rightarrow> Vector2 list" where
  "Foundation3D_points b bounds modelDimensions =
     (let latRange = jsub (north bounds) (south bounds);
          lonRange = jsub (east bounds) (west bounds);
          scaleX = (case modelDimensions of Some d \<Rightarrow> width d | None \<Rightarrow> JNum 1000);
          scaleZ = (case modelDimensions of Some d \<Rightarrow> depth d | None \<Rightarrow> JNum 1000)
      in map (\<lambda>c.
            Vector2
              (jmul (jsub (jdiv (jsub (lon c) (west bounds)) lonRange) (JNum 0.5)) scaleX)
              (jmul (jneg (jsub (jdiv (jsub (lat c) (south bounds)) latRange) (JNum 0.5)))
                 scaleZ))
           (geometry b))"

text \<open>
  The shapes of the buildings that have more than two vertices, in input order. Each is
  built from more than two points, so the constructor does not throw.
\<close>

definition Foundation3D_allShapes ::
  "building list \<Rightarrow> OSMBounds \<Rightarrow> ModelDimensions option \<Rightarrow> Shape list" where
  "Foundation3D_allShapes buildings bounds modelDimensions =
     concat (map (\<lambda>b.
        if length (geometry b) > 2 then
          (let points = Foundation3D_points b bounds modelDimensions
           in if length points > 2 then [\<lparr>pts = points, closed = False\<rparr>] else [])
        else []) buildings)"

text \<open>
  The merge loop keeps the positions and indices pushed so far and the running vertex
  offset.
\<close>

record mergeState =
  positions :: "vertex list"
  indices :: "nat list"
  vertexOffset :: nat

definition mergeStep :: "mergeState \<Rightarrow> BufferGeometry \<Rightarrow> mergeState" where
  "mergeStep st g =
     (let pos = position g;
          idx = index g
      in \<lparr>positions = positions st @ pos,
          indices = (case idx of
                       None \<Rightarrow> indices st
                     | Some ix \<Rightarrow> indices st @ map (\<lambda>i. i + vertexOffset st) ix),
          vertexOffset = vertexOffset st + length pos\<rparr>)"

text \<open>
  From the extruded foundation geometries to the foundation: nothing for no shape (the
  list of geometries is as long as the list of shapes), the geometry itself when it is
  the only one, the merged buffers otherwise.
\<close>

definition mergeFoundationGeometries :: "BufferGeometry list \<Rightarrow> BufferGeometry" where
  "mergeFoundationGeometries foundationGeometries =
     (if length foundationGeometries = 0 then emptyGeometry
      else if length foundationGeometries = 1 then foundationGeometries ! 0
      else
        (let st = foldl mergeStep \<lparr>positions = [], indices = [], vertexOffset = 0\<rparr>
                    foundationGeometries
         in \<lparr>position = positions st, index = Some (indices st)\<rparr>))"

definition Foundation3D ::
  "extruder \<Rightarrow> building list \<Rightarrow> OSMBounds \<Rightarrow> ModelDimensions option \<Rightarrow> BufferGeometry" where
  "Foundation3D extrude buildings bounds modelDimensions =
     (if length buildings = 0 then emptyGeometry
      else
        (let allShapes = Foundation3D_allShapes buildings bounds modelDimensions;
             foundationHeight = JNum 2;
             foundationGeometries = map (\<lambda>shape. extrude shape foundationHeight) allShapes
         in mergeFoundationGeometries foundationGeometries))"

section \<open>GPXTrack3D\<close>

text \<open>
  A track point is any record with a latitude and a longitude. The direction at the
  \<open>i\<close>-th path point is computed by the same lines in the forward and in the backward
  loop.
\<close>

definition GPXTrack3D_pathPoints ::
  "'a coord_scheme list \<Rightarrow> OSMBounds \<Rightarrow> ModelDimensions option \<Rightarrow> Vector2 list" where
  "GPXTrack3D_pathPoints points bounds modelDimensions =
     (let latRange = jsub (north bounds) (south bounds);
          lonRange = jsub (east bounds) (west bounds);
          scaleX = (case modelDimensions of Some d \<Rightarrow> width d | None \<Rightarrow> JNum 1000);
          scaleZ = (case modelDimensions of Some d \<Rightarrow> depth d | None \<Rightarrow> JNum 1000)
      in map (\<lambda>point.
            Vector2
              (jmul (jsub (jdiv (jsub (lon point) (west bounds)) lonRange) (JNum 0.5)) scaleX)
              (jmul (jneg (jsub (jdiv (jsub (lat point) (south bounds)) latRange) (JNum 0.5)))
                 scaleZ))
           points)"

definition GPXTrack3D_perpendicular :: "Vector2 list \<Rightarrow> jsnum \<Rightarrow> nat \<Rightarrow> Vector2" where
  "GPXTrack3D_perpendicular pathPoints pathWidth i =
     (let current = pathPoints ! i;
          direction =
            (if i = 0 then normalize (subVectors (pathPoints ! (i + 1)) current)
             else if i = length pathPoints - 1
             then normalize (subVectors current (pathPoints ! (i - 1)))
             else
               (let dirToPrev = normalize (subVectors current (pathPoints ! (i - 1)));
                    dirToNext = normalize (subVectors (pathPoints ! (i + 1)) current)
                in normalize (addVectors dirToPrev dirToNext)))
      in multiplyScalar (Vector2 (jneg (vy direction)) (vx direction)) pathWidth)"

definition GPXTrack3D_expandedPath :: "Vector2 list \<Rightarrow> jsnum \<Rightarrow> Vector2 list" where
  "GPXTrack3D_expandedPath pathPoints pathWidth =
     map (\<lambda>i. addVectors (pathPoints ! i) (GPXTrack3D_perpendicular pathPoints pathWidth i))
       [0 ..< length pathPoints]
     @ map (\<lambda>i. subVectors (pathPoints ! i) (GPXTrack3D_perpendicular pathPoints pathWidth i))
         (rev [0 ..< length pathPoints])"

definition GPXTrack3D ::
  "extruder \<Rightarrow> 'a coord_scheme list \<Rightarrow> OSMBounds \<Rightarrow> jsnum \<Rightarrow> ModelDimensions option
     \<Rightarrow> jsnum option \<Rightarrow> BufferGeometry" where
  "GPXTrack3D extrude points bounds strokeWidth modelDimensions pathExtrusionHeight =
     (if length points < 2 then emptyGeometry
      else
        (let extrusionHeight =
               (case pathExtrusionHeight of
                  None \<Rightarrow> JNum 2
                | Some h \<Rightarrow> if truthyNum h then h else JNum 2);
             pathPoints = GPXTrack3D_pathPoints points bounds modelDimensions;
             pathWidth = jmul strokeWidth (JNum 0.5);
             pathShape =
               (if length pathPoints \<ge> 2
                then \<lparr>pts = GPXTrack3D_expandedPath pathPoints pathWidth, closed = True\<rparr>
                else \<lparr>pts = [], closed = False\<rparr>)
         in extrude pathShape extrusionHeight))"

section \<open>Scene3D\<close>

record OSMData =
  buildings :: "building list"

text \<open>The target range of the building heights, an optional property of the scene.\<close>

record buildingHeightRange =
  min_r :: jsnum
  max_r :: jsnum

definition Scene3D_heightMapping ::
  "OSMData option \<Rightarrow> buildingHeightRange option \<Rightarrow> heightMapping option" where
  "Scene3D_heightMapping osmData bhr =
     (case osmData of
        None \<Rightarrow> None
      | Some d \<Rightarrow>
          (case bhr of
             None \<Rightarrow> None
           | Some r \<Rightarrow>
               if length (buildings d) = 0 then None
               else
                 (let heights = map getBuildingHeight (buildings d);
                      minHeight = Math_min heights;
                      maxHeight = Math_max heights;
                      actualMin = (if jeq minHeight maxHeight
                                   then jsub minHeight (JNum 1) else minHeight);
                      actualMax = (if jeq minHeight maxHeight
                                   then jadd maxHeight (JNum 1) else maxHeight)
                  in Some \<lparr>min_h = actualMin, max_h = actualMax,
                            minMM = min_r r, maxMM = max_r r\<rparr>)))"

text \<open>The mapping a building receives: the computed one, or the fallback of the scene.\<close>

definition Scene3D_buildingMapping ::
  "OSMData option \<Rightarrow> buildingHeightRange option \<Rightarrow> heightMapping" where
  "Scene3D_buildingMapping osmData bhr =
     (case Scene3D_heightMapping osmData bhr of
        Some hm \<Rightarrow> hm
      | None \<Rightarrow> \<lparr>min_h = JNum 6, max_h = JNum 6, minMM = JNum 5, maxMM = JNum 30\<rparr>)"

text \<open>
  The geometries of the meshes of a scene; the lights are left out. A building component
  that throws while it renders fails the render of the scene: the viewer has no error
  boundary of its own.
\<close>

fun collectMeshes :: "(error + BufferGeometry) list \<Rightarrow> error + BufferGeometry list" where
  "collectMeshes [] = Inr []"
| "collectMeshes (r # rs) =
     (case r of
        Inl e \<Rightarrow> Inl e
      | Inr g \<Rightarrow> (case collectMeshes rs of Inl e \<Rightarrow> Inl e | Inr gs \<Rightarrow> Inr (g # gs)))"

record 'a Scene3DProps =
  osmData :: "OSMData option"
  bounds :: "OSMBounds option"
  gpxPoints :: "'a coord_scheme list option"
  strokeWidth :: "jsnum option"
  modelDimensions :: "ModelDimensions option"
  heightRange :: "buildingHeightRange option"
  pathExtrusionHeight :: "jsnum option"

record Scene =
  foundationMesh :: "BufferGeometry option"
  buildingMeshes :: "BufferGeometry list"
  trackMesh :: "BufferGeometry option"

definition Scene3D_buildings ::
  "extruder \<Rightarrow> 'a Scene3DProps \<Rightarrow> OSMBounds \<Rightarrow> (error + BufferGeometry) list" where
  "Scene3D_buildings extrude props bnds =
     (case osmData props of
        None \<Rightarrow> []
      | Some d \<Rightarrow>
          map (\<lambda>b.
                (let originalHeight = getBuildingHeight b
                 in Building3D extrude b bnds (modelDimensions props) originalHeight
                      (Scene3D_buildingMapping (osmData props) (heightRange props))))
            (buildings d))"

definition Scene3D :: "extruder \<Rightarrow> 'a Scene3DProps \<Rightarrow> error + Scene" where
  "Scene3D extrude props =
     (case bounds props of
        None \<Rightarrow> Inr \<lparr>foundationMesh = None, buildingMeshes = [], trackMesh = None\<rparr>
      | Some bnds \<Rightarrow>
          (case collectMeshes (Scene3D_buildings extrude props bnds) of
             Inl e \<Rightarrow> Inl e
           | Inr meshes \<Rightarrow>
               Inr \<lparr>foundationMesh =
                      (case osmData props of
                         None \<Rightarrow> None
                       | Some d \<Rightarrow>
                           if length (buildings d) > 0
                           then Some (Foundation3D extrude (buildings d) bnds
                                        (modelDimensions props))
                           else None),
                    buildingMeshes = meshes,
                    trackMesh =
                      (case gpxPoints props of
                         None \<Rightarrow> None
                       | Some ps \<Rightarrow>
                           if length ps > 1
                           then Some (GPXTrack3D extrude ps bnds
                                        (case strokeWidth props of
                                           None \<Rightarrow> JNum 2
                                         | Some w \<Rightarrow> w)
                                        (modelDimensions props) (pathExtrusionHeight props))
                           else None)\<rparr>))"

section \<open>Notions used to state the properties\<close>


text \<open>A finite, strictly positive number.\<close>

fun finitePositive :: "jsnum \<Rightarrow> bool" where
  "finitePositive (JNum a) = (0 < a)"
| "finitePositive _ = False"

text \<open>
  The specification's description of a merge, to compare the loop with: the indices that
  the loop pushes for a geometry (its index, and nothing when it has no index: the test of
  line 194), the number of vertices of a list of geometries, and the pushed indices put one
  after the other, each list shifted by the number of vertices before it. The indices of a
  geometry are valid when each one names a vertex of it.
\<close>

definition pushedIndices :: "BufferGeometry \<Rightarrow> nat list" where
  "pushedIndices g = (case index g of None \<Rightarrow> [] | Some ix \<Rightarrow> ix)"

definition vertexCount :: "BufferGeometry list \<Rightarrow> nat" where
  "vertexCount gs = sum_list (map (\<lambda>g. length (position g)) gs)"

fun shiftedIndices :: "nat \<Rightarrow> BufferGeometry list \<Rightarrow> nat list" where
  "shiftedIndices off [] = []"
| "shiftedIndices off (g # gs) =
     map (\<lambda>i. i + off) (pushedIndices g) @ shiftedIndices (off + length (position g)) gs"

definition validIndices :: "BufferGeometry \<Rightarrow> bool" where
  "validIndices g = (\<forall>i \<in> set (pushedIndices g). i < length (position g))"

section \<open>Numbers and parsing\<close>

lemmas rnd_defs = toDouble_def ilog2_def pow2_def roundHalfEven_def bitLength.simps Let_def
  infOfSign_def

lemmas parse_defs = parseFloat_def parseInt_def isWhiteSpace_def isDigit_def isHexDigit_def
  digitsVal_def digitVal_def hexDigitsVal_def hexDigitVal_def

lemmas points_defs = Building3D_points_def Foundation3D_points_def GPXTrack3D_pathPoints_def


lemma toDouble_not_NaN: "\<not> isNaN (toDouble x)"
  by (simp add: toDouble_def Let_def infOfSign_def)

lemma parseInt_times_three:
  "\<not> isNaN (parseInt l) \<Longrightarrow> \<not> isNaN (roundNum (jmul (parseInt l) (JNum 3)))"
  by (cases "parseInt l") (simp_all add: toDouble_not_NaN infOfSign_def)

lemma foldl_jmin2_finite:
  "foldl jmin2 (JNum a) (map JNum rs) = JNum (foldl min a rs)"
  by (induction rs arbitrary: a) (simp_all add: jmin2_def min_def)

lemma foldl_jmax2_finite:
  "foldl jmax2 (JNum a) (map JNum rs) = JNum (foldl max a rs)"
  by (induction rs arbitrary: a) (simp_all add: jmax2_def max_def)

lemma foldl_min_le: "foldl min (a::real) rs \<le> a"
proof (induction rs arbitrary: a)
  case Nil
  show ?case by simp
next
  case (Cons r rs)
  have "foldl min (min a r) rs \<le> min a r" by (rule Cons.IH)
  then show ?case by simp
qed

lemma foldl_max_ge: "(a::real) \<le> foldl max a rs"
proof (induction rs arbitrary: a)
  case Nil
  show ?case by simp
next
  case (Cons r rs)
  have "max a r \<le> foldl max (max a r) rs" by (rule Cons.IH)
  then show ?case by simp
qed

lemma finite_list_reals:
  "\<forall>x \<in> set xs. isFiniteNum x \<Longrightarrow> \<exists>rs. xs = map JNum rs"
proof (induction xs)
  case Nil
  show ?case by simp
next
  case (Cons x xs)
  then obtain rs where "xs = map JNum rs" by auto
  moreover from Cons.prems obtain r where "x = JNum r" by (cases x) auto
  ultimately have "x # xs = map JNum (r # rs)" by simp
  then show ?case by (rule exI)
qed

lemma Math_min_max_finite:
  assumes "xs \<noteq> []" and "\<forall>x \<in> set xs. isFiniteNum x"
  shows "\<exists>m M. Math_min xs = JNum m \<and> Math_max xs = JNum M \<and> m \<le> M"
proof -
  from finite_list_reals [OF assms(2)] obtain rs where rs: "xs = map JNum rs" by blast
  with assms(1) obtain r rs' where r: "rs = r # rs'" by (cases rs) auto
  have "Math_min xs = JNum (foldl min r rs')"
    by (simp add: rs r Math_min_def jmin2_def foldl_jmin2_finite)
  moreover have "Math_max xs = JNum (foldl max r rs')"
    by (simp add: rs r Math_max_def jmax2_def foldl_jmax2_finite)
  moreover have "foldl min r rs' \<le> foldl max r rs'"
    using foldl_min_le [of r rs'] foldl_max_ge [of r rs'] by linarith
  ultimately show ?thesis by blast
qed

section \<open>The source range of the height mapping\<close>

text \<open>
  When a target range is supplied and every resolved height is finite, the range computed
  by the scene is not degenerate: equal extremes are widened by one on each side.
\<close>

lemma computed_range_nondegenerate:
  assumes "buildings d \<noteq> []"
    and "\<forall>b \<in> set (buildings d). isFiniteNum (getBuildingHeight b)"
  shows "\<exists>hm. Scene3D_heightMapping (Some d) (Some r) = Some hm \<and> jlt (min_h hm) (max_h hm)"
proof -
  let ?hs = "map getBuildingHeight (buildings d)"
  from assms have "?hs \<noteq> []" and "\<forall>x \<in> set ?hs. isFiniteNum x" by simp_all
  from Math_min_max_finite [OF this] obtain m M
    where mM: "Math_min ?hs = JNum m" "Math_max ?hs = JNum M" "m \<le> M" by blast
  show ?thesis
  proof (cases "m = M")
    case True
    with mM assms(1) show ?thesis
      by (simp add: Scene3D_heightMapping_def jeq_def jsub_def)
  next
    case False
    with mM assms(1) show ?thesis
      by (simp add: Scene3D_heightMapping_def jeq_def)
  qed
qed

text \<open>
  C1. The claim is that in every scene the source range of the height mapping has
  \<open>min < max\<close>, so that the mapping never divides by zero. A scene with one building (a
  triangle, no tag) and no target range takes the fallback mapping, whose source range is
  6 to 6: the range is degenerate, the mapped height of the building (which resolves to 6)
  is the quotient of zero by zero, NaN, and the building is extruded by that depth.
\<close>

theorem fallback_mapping_degenerate:
  "Scene3D_buildingMapping
      (Some \<lparr>buildings =
         [\<lparr>geometry = [\<lparr>lat = JNum 0, lon = JNum 0\<rparr>, \<lparr>lat = JNum 0, lon = JNum 1\<rparr>,
                       \<lparr>lat = JNum 1, lon = JNum 1\<rparr>],
           tags = Map.empty\<rparr>]\<rparr>) None
     = \<lparr>min_h = JNum 6, max_h = JNum 6, minMM = JNum 5, maxMM = JNum 30\<rparr>
   \<and> \<not> jlt (min_h (Scene3D_buildingMapping
                     (Some \<lparr>buildings =
                        [\<lparr>geometry = [\<lparr>lat = JNum 0, lon = JNum 0\<rparr>,
                                      \<lparr>lat = JNum 0, lon = JNum 1\<rparr>,
                                      \<lparr>lat = JNum 1, lon = JNum 1\<rparr>],
                          tags = Map.empty\<rparr>]\<rparr>) None))
           (max_h (Scene3D_buildingMapping
                     (Some \<lparr>buildings =
                        [\<lparr>geometry = [\<lparr>lat = JNum 0, lon = JNum 0\<rparr>,
                                      \<lparr>lat = JNum 0, lon = JNum 1\<rparr>,
                                      \<lparr>lat = JNum 1, lon = JNum 1\<rparr>],
                          tags = Map.empty\<rparr>]\<rparr>) None))
   \<and> Building3D_height
         (Scene3D_buildingMapping
            (Some \<lparr>buildings =
               [\<lparr>geometry = [\<lparr>lat = JNum 0, lon = JNum 0\<rparr>, \<lparr>lat = JNum 0, lon = JNum 1\<rparr>,
                             \<lparr>lat = JNum 1, lon = JNum 1\<rparr>],
                 tags = Map.empty\<rparr>]\<rparr>) None)
         (getBuildingHeight
            \<lparr>geometry = [\<lparr>lat = JNum 0, lon = JNum 0\<rparr>, \<lparr>lat = JNum 0, lon = JNum 1\<rparr>,
                          \<lparr>lat = JNum 1, lon = JNum 1\<rparr>],
              tags = Map.empty\<rparr>) = JNaN
   \<and> Scene3D extrude
        \<lparr>osmData = Some \<lparr>buildings =
           [\<lparr>geometry = [\<lparr>lat = JNum 0, lon = JNum 0\<rparr>, \<lparr>lat = JNum 0, lon = JNum 1\<rparr>,
                         \<lparr>lat = JNum 1, lon = JNum 1\<rparr>],
             tags = Map.empty\<rparr>]\<rparr>,
         bounds = Some \<lparr>north = JNum 1, south = JNum 0, east = JNum 1, west = JNum 0\<rparr>,
         gpxPoints = (None :: coord list option),
         strokeWidth = None,
         modelDimensions = Some \<lparr>width = JNum 100, depth = JNum 100\<rparr>,
         heightRange = None,
         pathExtrusionHeight = None\<rparr>
      = Inr \<lparr>foundationMesh =
               Some (extrude \<lparr>pts = [Vector2 (JNum (- 50)) (JNum 50),
                                       Vector2 (JNum 50) (JNum 50),
                                       Vector2 (JNum 50) (JNum (- 50))],
                               closed = False\<rparr> (JNum 2)),
             buildingMeshes =
               [extrude \<lparr>pts = [Vector2 (JNum (- 50)) (JNum 50),
                                 Vector2 (JNum 50) (JNum 50),
                                 Vector2 (JNum 50) (JNum (- 50))],
                         closed = False\<rparr> JNaN],
             trackMesh = None\<rparr>"
  by (simp add: Scene3D_def Scene3D_buildings_def Foundation3D_def Foundation3D_allShapes_def
      mergeFoundationGeometries_def Building3D_def newShape_def points_defs
      Scene3D_buildingMapping_def Scene3D_heightMapping_def Building3D_height_def
      getBuildingHeight_def buildingTypeHeight_def jsub_def)

section \<open>getBuildingHeight\<close>

text \<open>
  C2, as stated: a height tag that cannot be parsed lets the next rules apply, so that
  the tags height \<open>abc\<close>, building:levels \<open>3\<close> give 9 and the tags height \<open>abc\<close>,
  building \<open>office\<close> give 20. Neither value is returned.
\<close>

theorem invalid_height_skips_next_rules:
  "getBuildingHeight
     \<lparr>geometry = [], tags = [''height'' \<mapsto> ''abc'', ''building:levels'' \<mapsto> ''3'']\<rparr> \<noteq> JNum 9
   \<and> getBuildingHeight
       \<lparr>geometry = [], tags = [''height'' \<mapsto> ''abc'', ''building'' \<mapsto> ''office'']\<rparr> \<noteq> JNum 20"
  by (simp add: getBuildingHeight_def parse_defs)

text \<open>
  C2, amended: when the height tag is a non-empty string that cannot be parsed as a
  number, the result is the default 6, whatever the other tags are; the rules for the
  levels and for the building type are not consulted.
\<close>

theorem invalid_height_gives_default:
  assumes "tags b ''height'' = Some h" and "h \<noteq> []" and "isNaN (parseFloat h)"
  shows "getBuildingHeight b = JNum 6"
  using assms by (simp add: getBuildingHeight_def)

theorem invalid_height_gives_default_witness:
  "getBuildingHeight
     \<lparr>geometry = [], tags = [''height'' \<mapsto> ''abc'', ''building:levels'' \<mapsto> ''3'']\<rparr> = JNum 6"
  using invalid_height_gives_default
    [of "\<lparr>geometry = [], tags = [''height'' \<mapsto> ''abc'', ''building:levels'' \<mapsto> ''3'']\<rparr>"
      "''abc''"]
  by (simp add: parse_defs)

text \<open>
  C3, as stated: the result is finite and strictly positive for every tag mapping. The
  height tag \<open>-5\<close> is returned as it is parsed.
\<close>

theorem negative_height_returned:
  "\<not> finitePositive (getBuildingHeight \<lparr>geometry = [], tags = [''height'' \<mapsto> ''-5'']\<rparr>)"
  by (simp add: getBuildingHeight_def parse_defs rnd_defs)

text \<open>
  C3, amended: the function returns on every tag mapping and never returns NaN. With a
  non-empty height tag the result is the float parsed from it, or 6 when it does not parse.
  Otherwise, with a non-empty levels tag, the result is three times the integer parsed
  from it, rounded to a float, or 6 when it does not parse. Otherwise the result is the
  value of the building type, one of 4, 6, 8, 12, 15 and 20. So the result is finite and
  strictly positive except when the parsed height, or three times the parsed levels, is
  zero, negative or infinite. The parsed numbers are floats: a literal beyond the largest
  float parses to an infinity and a positive literal below the smallest one to zero.
\<close>

theorem getBuildingHeight_result:
  "\<not> isNaN (getBuildingHeight b)
   \<and> (\<forall>h. tags b ''height'' = Some h \<and> h \<noteq> [] \<longrightarrow>
          getBuildingHeight b = (if isNaN (parseFloat h) then JNum 6 else parseFloat h))
   \<and> (\<forall>l. \<not> truthyTag (tags b ''height'') \<and> tags b ''building:levels'' = Some l \<and> l \<noteq> [] \<longrightarrow>
          getBuildingHeight b =
            (if isNaN (parseInt l) then JNum 6 else roundNum (jmul (parseInt l) (JNum 3))))
   \<and> (\<not> truthyTag (tags b ''height'') \<and> \<not> truthyTag (tags b ''building:levels'') \<longrightarrow>
          getBuildingHeight b = buildingTypeHeight (tags b ''building'')
        \<and> getBuildingHeight b \<in> {JNum 4, JNum 6, JNum 8, JNum 12, JNum 15, JNum 20})
   \<and> (finitePositive (getBuildingHeight b) \<longleftrightarrow>
        \<not> (\<exists>h. tags b ''height'' = Some h \<and> h \<noteq> [] \<and> \<not> isNaN (parseFloat h)
                 \<and> \<not> finitePositive (parseFloat h))
      \<and> \<not> (\<exists>l. \<not> truthyTag (tags b ''height'') \<and> tags b ''building:levels'' = Some l
                 \<and> l \<noteq> [] \<and> \<not> isNaN (parseInt l)
                 \<and> \<not> finitePositive (roundNum (jmul (parseInt l) (JNum 3)))))"
proof -
  have table: "\<not> isNaN (buildingTypeHeight t) \<and> finitePositive (buildingTypeHeight t)
                 \<and> buildingTypeHeight t \<in> {JNum 4, JNum 6, JNum 8, JNum 12, JNum 15, JNum 20}"
    for t
    by (simp add: buildingTypeHeight_def)
  show ?thesis
  proof (cases "truthyTag (tags b ''height'')")
    case True
    then obtain h where h: "tags b ''height'' = Some h" "h \<noteq> []"
      by (cases "tags b ''height''") auto
    show ?thesis
    proof (cases "isNaN (parseFloat h)")
      case True
      with h show ?thesis by (simp add: getBuildingHeight_def)
    next
      case False
      with h show ?thesis by (simp add: getBuildingHeight_def)
    qed
  next
    case noH: False
    then have nh: "\<And>h. tags b ''height'' = Some h \<Longrightarrow> h = []"
      by (cases "tags b ''height''") auto
    show ?thesis
    proof (cases "truthyTag (tags b ''building:levels'')")
      case True
      then obtain l where l: "tags b ''building:levels'' = Some l" "l \<noteq> []"
        by (cases "tags b ''building:levels''") auto
      show ?thesis
      proof (cases "isNaN (parseInt l)")
        case True
        with noH l nh show ?thesis by (auto simp add: getBuildingHeight_def)
      next
        case False
        with noH l nh parseInt_times_three [of l] show ?thesis
          by (auto simp add: getBuildingHeight_def)
      qed
    next
      case False
      then have nl: "\<And>l. tags b ''building:levels'' = Some l \<Longrightarrow> l = []"
        by (cases "tags b ''building:levels''") auto
      from noH False nh nl table show ?thesis
        by (auto simp add: getBuildingHeight_def)
    qed
  qed
qed

theorem getBuildingHeight_result_witness:
  "getBuildingHeight \<lparr>geometry = [], tags = [''building:levels'' \<mapsto> ''3'']\<rparr> = JNum 9
   \<and> finitePositive
       (getBuildingHeight \<lparr>geometry = [], tags = [''building:levels'' \<mapsto> ''3'']\<rparr>)
   \<and> \<not> finitePositive (getBuildingHeight \<lparr>geometry = [], tags = [''height'' \<mapsto> ''0'']\<rparr>)
   \<and> getBuildingHeight \<lparr>geometry = [], tags = [''height'' \<mapsto> ''1e400'']\<rparr> = JPosInf
   \<and> \<not> finitePositive
         (getBuildingHeight \<lparr>geometry = [], tags = [''height'' \<mapsto> ''1e400'']\<rparr>)"
  using getBuildingHeight_result
      [of "\<lparr>geometry = [], tags = [''building:levels'' \<mapsto> ''3'']\<rparr>"]
    getBuildingHeight_result [of "\<lparr>geometry = [], tags = [''height'' \<mapsto> ''0'']\<rparr>"]
    getBuildingHeight_result [of "\<lparr>geometry = [], tags = [''height'' \<mapsto> ''1e400'']\<rparr>"]
  by (simp add: parse_defs rnd_defs)

text \<open>
  Text of any size: a levels tag of 400 nines parses to \<open>Infinity\<close>, which is the
  result, and a positive height below the smallest float parses to zero.
\<close>

lemma huge_levels_infinite:
  "getBuildingHeight
     \<lparr>geometry = [],
      tags = [''building:levels'' \<mapsto>
        ''9999999999999999999999999999999999999999999999999999999999999999999999999999999999999999999999999999999999999999999999999999999999999999999999999999999999999999999999999999999999999999999999999999999999999999999999999999999999999999999999999999999999999999999999999999999999999999999999999999999999999999999999999999999999999999999999999999999999999999999999999999999999999999999999999999999999999999'']\<rparr>
   = JPosInf"
  by (simp add: getBuildingHeight_def parse_defs rnd_defs)

lemma tiny_height_zero:
  "getBuildingHeight \<lparr>geometry = [], tags = [''height'' \<mapsto> ''1e-400'']\<rparr> = JNum 0"
  by (simp add: getBuildingHeight_def parse_defs rnd_defs)

text \<open>
  The product by three overflows too: a levels tag of a one and 308 zeros parses to a
  finite float, the float nearest to \<open>10 ^ 308\<close>, and three times it is \<open>Infinity\<close>.
\<close>

lemma parseInt_large_levels:
  "parseInt ''100000000000000000000000000000000000000000000000000000000000000000000000000000000000000000000000000000000000000000000000000000000000000000000000000000000000000000000000000000000000000000000000000000000000000000000000000000000000000000000000000000000000000000000000000000000000000000000000000000000000000000000''
   = JNum 100000000000000001097906362944045541740492309677311846336810682903157585404911491537163328978494688899061249669721172515611590283743140088328307009198146046031271664502933027185697489699588559043338384466165001178426897626212945177628091195786707458122783970171784415105291802893207873272974885715430223118336"
  by (simp add: parse_defs rnd_defs)

lemma levels_product_overflows:
  "getBuildingHeight \<lparr>geometry = [], tags = [''building:levels'' \<mapsto> ''100000000000000000000000000000000000000000000000000000000000000000000000000000000000000000000000000000000000000000000000000000000000000000000000000000000000000000000000000000000000000000000000000000000000000000000000000000000000000000000000000000000000000000000000000000000000000000000000000000000000000000000'']\<rparr> = JPosInf"
  by (simp add: getBuildingHeight_def parseInt_large_levels toDouble_def infOfSign_def)

section \<open>Projection\<close>

text \<open>
  C4. On finite coordinates and bounds with \<open>east \<noteq> west\<close> and \<open>north \<noteq> south\<close>, each
  of the three projections computes
  \<open>x = ((lon - west) / (east - west) - 0.5) * width\<close> and
  \<open>z = -((lat - south) / (north - south) - 0.5) * depth\<close>; the centre of the bounds goes
  to \<open>(0, 0)\<close>, the north-west corner to \<open>(-width/2, -depth/2)\<close> and the south-east
  corner to \<open>(width/2, depth/2)\<close>.
\<close>

theorem projection_formula:
  assumes "e \<noteq> w" and "n \<noteq> s"
  shows
    "Building3D_points
        \<lparr>geometry = map (\<lambda>(la, lo). \<lparr>lat = JNum la, lon = JNum lo\<rparr>) cs, tags = t\<rparr>
        \<lparr>north = JNum n, south = JNum s, east = JNum e, west = JNum w\<rparr>
        (Some \<lparr>width = JNum wd, depth = JNum dp\<rparr>)
      = map (\<lambda>(la, lo). Vector2 (JNum (((lo - w) / (e - w) - 0.5) * wd))
                                (JNum (- ((la - s) / (n - s) - 0.5) * dp))) cs
   \<and> Foundation3D_points
        \<lparr>geometry = map (\<lambda>(la, lo). \<lparr>lat = JNum la, lon = JNum lo\<rparr>) cs, tags = t\<rparr>
        \<lparr>north = JNum n, south = JNum s, east = JNum e, west = JNum w\<rparr>
        (Some \<lparr>width = JNum wd, depth = JNum dp\<rparr>)
      = map (\<lambda>(la, lo). Vector2 (JNum (((lo - w) / (e - w) - 0.5) * wd))
                                (JNum (- ((la - s) / (n - s) - 0.5) * dp))) cs
   \<and> GPXTrack3D_pathPoints
        (map (\<lambda>(la, lo). \<lparr>lat = JNum la, lon = JNum lo\<rparr>) cs)
        \<lparr>north = JNum n, south = JNum s, east = JNum e, west = JNum w\<rparr>
        (Some \<lparr>width = JNum wd, depth = JNum dp\<rparr>)
      = map (\<lambda>(la, lo). Vector2 (JNum (((lo - w) / (e - w) - 0.5) * wd))
                                (JNum (- ((la - s) / (n - s) - 0.5) * dp))) cs
   \<and> Building3D_points
        \<lparr>geometry = [\<lparr>lat = JNum ((s + n) / 2), lon = JNum ((w + e) / 2)\<rparr>], tags = t\<rparr>
        \<lparr>north = JNum n, south = JNum s, east = JNum e, west = JNum w\<rparr>
        (Some \<lparr>width = JNum wd, depth = JNum dp\<rparr>)
      = [Vector2 (JNum 0) (JNum 0)]
   \<and> Building3D_points
        \<lparr>geometry = [\<lparr>lat = JNum n, lon = JNum w\<rparr>, \<lparr>lat = JNum s, lon = JNum e\<rparr>], tags = t\<rparr>
        \<lparr>north = JNum n, south = JNum s, east = JNum e, west = JNum w\<rparr>
        (Some \<lparr>width = JNum wd, depth = JNum dp\<rparr>)
      = [Vector2 (JNum (- wd / 2)) (JNum (- dp / 2)), Vector2 (JNum (wd / 2)) (JNum (dp / 2))]"
proof (intro conjI)
  show "Building3D_points
        \<lparr>geometry = map (\<lambda>(la, lo). \<lparr>lat = JNum la, lon = JNum lo\<rparr>) cs, tags = t\<rparr>
        \<lparr>north = JNum n, south = JNum s, east = JNum e, west = JNum w\<rparr>
        (Some \<lparr>width = JNum wd, depth = JNum dp\<rparr>)
      = map (\<lambda>(la, lo). Vector2 (JNum (((lo - w) / (e - w) - 0.5) * wd))
                                (JNum (- ((la - s) / (n - s) - 0.5) * dp))) cs"
    using assms by (simp add: Building3D_points_def jsub_def split_def)
  show "Foundation3D_points
        \<lparr>geometry = map (\<lambda>(la, lo). \<lparr>lat = JNum la, lon = JNum lo\<rparr>) cs, tags = t\<rparr>
        \<lparr>north = JNum n, south = JNum s, east = JNum e, west = JNum w\<rparr>
        (Some \<lparr>width = JNum wd, depth = JNum dp\<rparr>)
      = map (\<lambda>(la, lo). Vector2 (JNum (((lo - w) / (e - w) - 0.5) * wd))
                                (JNum (- ((la - s) / (n - s) - 0.5) * dp))) cs"
    using assms by (simp add: Foundation3D_points_def jsub_def split_def)
  show "GPXTrack3D_pathPoints
        (map (\<lambda>(la, lo). \<lparr>lat = JNum la, lon = JNum lo\<rparr>) cs)
        \<lparr>north = JNum n, south = JNum s, east = JNum e, west = JNum w\<rparr>
        (Some \<lparr>width = JNum wd, depth = JNum dp\<rparr>)
      = map (\<lambda>(la, lo). Vector2 (JNum (((lo - w) / (e - w) - 0.5) * wd))
                                (JNum (- ((la - s) / (n - s) - 0.5) * dp))) cs"
    using assms by (simp add: GPXTrack3D_pathPoints_def jsub_def split_def)
  have a: "((w + e) / 2 - w) / (e - w) = 1 / 2" using assms(1) by (simp add: field_simps)
  have b: "((s + n) / 2 - s) / (n - s) = 1 / 2" using assms(2) by (simp add: field_simps)
  show "Building3D_points
        \<lparr>geometry = [\<lparr>lat = JNum ((s + n) / 2), lon = JNum ((w + e) / 2)\<rparr>], tags = t\<rparr>
        \<lparr>north = JNum n, south = JNum s, east = JNum e, west = JNum w\<rparr>
        (Some \<lparr>width = JNum wd, depth = JNum dp\<rparr>)
      = [Vector2 (JNum 0) (JNum 0)]"
    using assms a b by (simp add: Building3D_points_def jsub_def)
  show "Building3D_points
        \<lparr>geometry = [\<lparr>lat = JNum n, lon = JNum w\<rparr>, \<lparr>lat = JNum s, lon = JNum e\<rparr>], tags = t\<rparr>
        \<lparr>north = JNum n, south = JNum s, east = JNum e, west = JNum w\<rparr>
        (Some \<lparr>width = JNum wd, depth = JNum dp\<rparr>)
      = [Vector2 (JNum (- wd / 2)) (JNum (- dp / 2)), Vector2 (JNum (wd / 2)) (JNum (dp / 2))]"
    using assms by (simp add: Building3D_points_def jsub_def)
qed

theorem projection_formula_witness:
  "Building3D_points
      \<lparr>geometry = [\<lparr>lat = JNum 1, lon = JNum 0\<rparr>, \<lparr>lat = JNum 0, lon = JNum 1\<rparr>],
       tags = Map.empty\<rparr>
      \<lparr>north = JNum 1, south = JNum 0, east = JNum 1, west = JNum 0\<rparr>
      (Some \<lparr>width = JNum 100, depth = JNum 80\<rparr>)
    = [Vector2 (JNum (- 50)) (JNum (- 40)), Vector2 (JNum 50) (JNum 40)]
   \<and> Building3D_points
      \<lparr>geometry = [\<lparr>lat = JNum (1 / 2), lon = JNum (1 / 2)\<rparr>], tags = Map.empty\<rparr>
      \<lparr>north = JNum 1, south = JNum 0, east = JNum 1, west = JNum 0\<rparr>
      (Some \<lparr>width = JNum 100, depth = JNum 80\<rparr>)
    = [Vector2 (JNum 0) (JNum 0)]"
  using projection_formula
    [where e = 1 and w = 0 and n = 1 and s = 0 and wd = 100 and dp = 80 and t = Map.empty
       and cs = "[]"]
  by simp

section \<open>Height mapping\<close>



section \<open>Merging the foundation geometries\<close>

lemma mergeStep_sel:
  "positions (mergeStep st g) = positions st @ position g"
  "indices (mergeStep st g) = indices st @ map (\<lambda>i. i + vertexOffset st) (pushedIndices g)"
  "vertexOffset (mergeStep st g) = vertexOffset st + length (position g)"
  by (simp_all add: mergeStep_def pushedIndices_def Let_def split: option.split)

text \<open>The loop, from any state: what it has pushed when it ends.\<close>

lemma foldl_mergeStep:
  "foldl mergeStep st gs =
     \<lparr>positions = positions st @ concat (map position gs),
      indices = indices st @ shiftedIndices (vertexOffset st) gs,
      vertexOffset = vertexOffset st + vertexCount gs\<rparr>"
proof (induction gs arbitrary: st)
  case Nil
  then show ?case by (simp add: vertexCount_def)
next
  case (Cons g gs)
  show ?case
    by (simp add: Cons.IH mergeStep_sel vertexCount_def)
qed

lemma shiftedIndices_bound:
  "\<forall>g \<in> set gs. validIndices g \<Longrightarrow> i \<in> set (shiftedIndices off gs)
     \<Longrightarrow> i < off + vertexCount gs"
proof (induction gs arbitrary: off)
  case Nil
  then show ?case by simp
next
  case (Cons g gs)
  from Cons.prems(2) consider
    (here) "i \<in> (\<lambda>i. i + off) ` set (pushedIndices g)"
    | (later) "i \<in> set (shiftedIndices (off + length (position g)) gs)"
    by auto
  then show ?case
  proof cases
    case here
    with Cons.prems(1) show ?thesis by (auto simp add: validIndices_def vertexCount_def)
  next
    case later
    with Cons.IH [of "off + length (position g)"] Cons.prems(1) show ?thesis
      by (simp add: vertexCount_def)
  qed
qed

lemma shiftedIndices_append:
  "shiftedIndices off (pre @ post) =
     shiftedIndices off pre @ shiftedIndices (off + vertexCount pre) post"
  by (induction pre arbitrary: off) (simp_all add: vertexCount_def add.assoc)

lemma merged_many:
  assumes "2 \<le> length gs"
  shows "mergeFoundationGeometries gs =
           \<lparr>position = concat (map position gs), index = Some (shiftedIndices 0 gs)\<rparr>"
proof -
  from assms have "length gs \<noteq> 0" and "length gs \<noteq> 1" by auto
  then show ?thesis
    unfolding mergeFoundationGeometries_def foldl_mergeStep by (simp add: Let_def)
qed

text \<open>
  What the merge computes. No geometry gives the empty geometry and a single geometry is
  returned as it is. For two or more geometries the merged vertices are the vertices of
  the inputs in input order, as many as the inputs have together; the merged index is the
  pushed indices of the inputs in input order, each list in its own order and shifted by
  the number of vertices of the geometries before it; and when every input index names a
  vertex of its geometry, every merged index is at most the total number of vertices
  minus one.
\<close>

lemma merge_loop_closed_form:
  "mergeFoundationGeometries [] = emptyGeometry
   \<and> mergeFoundationGeometries [g] = g
   \<and> (2 \<le> length gs \<longrightarrow>
        position (mergeFoundationGeometries gs) = concat (map position gs)
      \<and> length (position (mergeFoundationGeometries gs)) = vertexCount gs
      \<and> index (mergeFoundationGeometries gs) = Some (shiftedIndices 0 gs)
      \<and> (\<forall>pre m post. gs = pre @ m # post \<longrightarrow>
            shiftedIndices 0 gs =
              shiftedIndices 0 pre @ map (\<lambda>i. i + vertexCount pre) (pushedIndices m)
                @ shiftedIndices (vertexCount (pre @ [m])) post)
      \<and> ((\<forall>m \<in> set gs. validIndices m) \<longrightarrow>
            (\<forall>i \<in> set (pushedIndices (mergeFoundationGeometries gs)).
               int i \<le> int (vertexCount gs) - 1)))"
proof (intro conjI impI)
  show "mergeFoundationGeometries [] = emptyGeometry"
    by (simp add: mergeFoundationGeometries_def)
  show "mergeFoundationGeometries [g] = g"
    by (simp add: mergeFoundationGeometries_def)
next
  assume len: "2 \<le> length gs"
  show "position (mergeFoundationGeometries gs) = concat (map position gs)"
    by (simp add: merged_many [OF len])
  show "length (position (mergeFoundationGeometries gs)) = vertexCount gs"
    by (simp add: merged_many [OF len] vertexCount_def length_concat comp_def)
  show "index (mergeFoundationGeometries gs) = Some (shiftedIndices 0 gs)"
    by (simp add: merged_many [OF len])
  show "\<forall>pre m post. gs = pre @ m # post \<longrightarrow>
            shiftedIndices 0 gs =
              shiftedIndices 0 pre @ map (\<lambda>i. i + vertexCount pre) (pushedIndices m)
                @ shiftedIndices (vertexCount (pre @ [m])) post"
    by (auto simp add: shiftedIndices_append vertexCount_def)
next
  assume len: "2 \<le> length gs" and valid: "\<forall>m \<in> set gs. validIndices m"
  show "\<forall>i \<in> set (pushedIndices (mergeFoundationGeometries gs)). int i \<le> int (vertexCount gs) - 1"
  proof
    fix i assume "i \<in> set (pushedIndices (mergeFoundationGeometries gs))"
    then have "i \<in> set (shiftedIndices 0 gs)"
      by (simp add: merged_many [OF len] pushedIndices_def)
    from shiftedIndices_bound [OF valid this] show "int i \<le> int (vertexCount gs) - 1"
      by simp
  qed
qed

lemma merge_loop_indexed_example:
  "index (mergeFoundationGeometries
     [\<lparr>position = [(JNum 0, JNum 0, JNum 0), (JNum 1, JNum 0, JNum 0), (JNum 0, JNum 1, JNum 0)],
       index = Some [0, 1, 2]\<rparr>,
      \<lparr>position = [(JNum 2, JNum 0, JNum 0), (JNum 3, JNum 0, JNum 0), (JNum 2, JNum 1, JNum 0)],
       index = Some [0, 2, 1]\<rparr>]) = Some [0, 1, 2, 3, 5, 4]
   \<and> length (position (mergeFoundationGeometries
     [\<lparr>position = [(JNum 0, JNum 0, JNum 0), (JNum 1, JNum 0, JNum 0), (JNum 0, JNum 1, JNum 0)],
       index = Some [0, 1, 2]\<rparr>,
      \<lparr>position = [(JNum 2, JNum 0, JNum 0), (JNum 3, JNum 0, JNum 0), (JNum 2, JNum 1, JNum 0)],
       index = Some [0, 2, 1]\<rparr>])) = 6
   \<and> list_all (\<lambda>i. int i \<le> 5) (pushedIndices (mergeFoundationGeometries
     [\<lparr>position = [(JNum 0, JNum 0, JNum 0), (JNum 1, JNum 0, JNum 0), (JNum 0, JNum 1, JNum 0)],
       index = Some [0, 1, 2]\<rparr>,
      \<lparr>position = [(JNum 2, JNum 0, JNum 0), (JNum 3, JNum 0, JNum 0), (JNum 2, JNum 1, JNum 0)],
       index = Some [0, 2, 1]\<rparr>]))"
  using merge_loop_closed_form [of emptyGeometry
     "[\<lparr>position = [(JNum 0, JNum 0, JNum 0), (JNum 1, JNum 0, JNum 0), (JNum 0, JNum 1, JNum 0)],
       index = Some [0, 1, 2]\<rparr>,
      \<lparr>position = [(JNum 2, JNum 0, JNum 0), (JNum 3, JNum 0, JNum 0), (JNum 2, JNum 1, JNum 0)],
       index = Some [0, 2, 1]\<rparr>]"]
  by (simp add: vertexCount_def validIndices_def pushedIndices_def list_all_iff)

text \<open>
  Geometries with no index push nothing, so the index installed on the merged geometry
  has no entry and the merged geometry draws no triangle.
\<close>

lemma shiftedIndices_not_indexed:
  "\<forall>g \<in> set gs. index g = None \<Longrightarrow> shiftedIndices off gs = []"
  by (induction gs arbitrary: off) (simp_all add: pushedIndices_def)

lemma merge_not_indexed_draws_nothing:
  assumes "2 \<le> length gs" and "\<forall>g \<in> set gs. index g = None"
  shows "index (mergeFoundationGeometries gs) = Some []
       \<and> triangles (mergeFoundationGeometries gs) = []"
  using shiftedIndices_not_indexed [OF assms(2), of 0]
  by (simp add: merged_many [OF assms(1)] triangles_def)

text \<open>
  C6. The claim is that the merge keeps the triangles of every input, in their winding
  order. Two geometries with no index, the case that the test of line 194 provides for,
  draw one triangle each; their merge has the six vertices and an index of no entry, so it
  draws no triangle, while the same geometry merged alone is returned as it is and keeps
  its triangle.
\<close>

theorem merge_drops_triangles:
  "triangles \<lparr>position = [(JNum 0, JNum 0, JNum 0), (JNum 1, JNum 0, JNum 0),
                           (JNum 0, JNum 1, JNum 0)], index = None\<rparr> = [(0, 1, 2)]
   \<and> triangles \<lparr>position = [(JNum 2, JNum 0, JNum 0), (JNum 3, JNum 0, JNum 0),
                             (JNum 2, JNum 1, JNum 0)], index = None\<rparr> = [(0, 1, 2)]
   \<and> mergeFoundationGeometries
        [\<lparr>position = [(JNum 0, JNum 0, JNum 0), (JNum 1, JNum 0, JNum 0),
                       (JNum 0, JNum 1, JNum 0)], index = None\<rparr>,
         \<lparr>position = [(JNum 2, JNum 0, JNum 0), (JNum 3, JNum 0, JNum 0),
                       (JNum 2, JNum 1, JNum 0)], index = None\<rparr>]
      = \<lparr>position = [(JNum 0, JNum 0, JNum 0), (JNum 1, JNum 0, JNum 0),
                      (JNum 0, JNum 1, JNum 0), (JNum 2, JNum 0, JNum 0),
                      (JNum 3, JNum 0, JNum 0), (JNum 2, JNum 1, JNum 0)],
         index = Some []\<rparr>
   \<and> triangles (mergeFoundationGeometries
        [\<lparr>position = [(JNum 0, JNum 0, JNum 0), (JNum 1, JNum 0, JNum 0),
                       (JNum 0, JNum 1, JNum 0)], index = None\<rparr>,
         \<lparr>position = [(JNum 2, JNum 0, JNum 0), (JNum 3, JNum 0, JNum 0),
                       (JNum 2, JNum 1, JNum 0)], index = None\<rparr>]) = []
   \<and> triangles (mergeFoundationGeometries
        [\<lparr>position = [(JNum 0, JNum 0, JNum 0), (JNum 1, JNum 0, JNum 0),
                       (JNum 0, JNum 1, JNum 0)], index = None\<rparr>]) = [(0, 1, 2)]"
  by (simp add: mergeFoundationGeometries_def mergeStep_def triangles_def upt_rec)

section \<open>Footprints with fewer than three vertices\<close>

text \<open>The foundation keeps the buildings with more than two vertices and skips the others.\<close>

lemma Foundation3D_allShapes_filter:
  "Foundation3D_allShapes bs bnds md =
     map (\<lambda>b. \<lparr>pts = Foundation3D_points b bnds md, closed = False\<rparr>)
       (filter (\<lambda>b. length (geometry b) > 2) bs)"
proof -
  have len: "length (Foundation3D_points b bnds md) = length (geometry b)" for b
    by (simp add: Foundation3D_points_def)
  show ?thesis
    unfolding Foundation3D_allShapes_def
    by (induction bs) (simp_all add: len Let_def)
qed

text \<open>
  A scene that renders holds one building mesh for each building, whatever its vertices;
  a building with no vertex at all makes its component throw.
\<close>

lemma collectMeshes_length:
  "collectMeshes rs = Inr gs \<Longrightarrow> length gs = length rs"
  by (induction rs arbitrary: gs) (auto split: sum.splits)

lemma Scene3D_building_count:
  assumes "bounds props = Some bnds" and "osmData props = Some d"
    and "Scene3D extrude props = Inr sc"
  shows "length (buildingMeshes sc) = length (buildings d)"
proof -
  from assms obtain meshes
    where m: "collectMeshes (Scene3D_buildings extrude props bnds) = Inr meshes"
      and sc: "buildingMeshes sc = meshes"
    by (auto simp add: Scene3D_def split: sum.splits)
  from collectMeshes_length [OF m] assms(2) sc show ?thesis
    by (simp add: Scene3D_buildings_def)
qed

lemma empty_footprint_throws:
  "Building3D extrude \<lparr>geometry = [], tags = t\<rparr> bnds md oh hm = Inl TypeError"
  by (simp add: Building3D_def Building3D_points_def newShape_def)

text \<open>
  C7. The claim is that a footprint with fewer than three vertices produces no mesh, for
  the per-building prisms as for the foundation. In the scene of one building with two
  vertices the foundation has no shape and is the empty geometry, but the list of building
  meshes holds the extrusion of the two projected points.
\<close>

theorem short_footprint_building_mesh:
  "Scene3D extrude
     \<lparr>osmData = Some \<lparr>buildings =
        [\<lparr>geometry = [\<lparr>lat = JNum 0, lon = JNum 0\<rparr>, \<lparr>lat = JNum 1, lon = JNum 1\<rparr>],
          tags = Map.empty\<rparr>]\<rparr>,
      bounds = Some \<lparr>north = JNum 1, south = JNum 0, east = JNum 1, west = JNum 0\<rparr>,
      gpxPoints = (None :: coord list option),
      strokeWidth = None,
      modelDimensions = Some \<lparr>width = JNum 100, depth = JNum 100\<rparr>,
      heightRange = Some \<lparr>min_r = JNum 5, max_r = JNum 30\<rparr>,
      pathExtrusionHeight = None\<rparr>
   = Inr \<lparr>foundationMesh = Some emptyGeometry,
      buildingMeshes =
        [extrude \<lparr>pts = [Vector2 (JNum (- 50)) (JNum 50), Vector2 (JNum 50) (JNum (- 50))],
                  closed = False\<rparr> (JNum 17.5)],
      trackMesh = None\<rparr>"
  by (simp add: Scene3D_def Scene3D_buildings_def Foundation3D_def Foundation3D_allShapes_def
      mergeFoundationGeometries_def Building3D_def newShape_def Building3D_points_def
      Building3D_height_def Scene3D_buildingMapping_def Scene3D_heightMapping_def getBuildingHeight_def
      buildingTypeHeight_def Math_min_def Math_max_def jmin2_def jmax2_def jeq_def jsub_def)

section \<open>Tracks with fewer than two points\<close>

text \<open>
  C8. A track of fewer than two points gives the empty geometry: no vertex and no index.
\<close>

theorem short_track_empty:
  assumes "length points < 2"
  shows "GPXTrack3D extrude points bnds sw md peh = emptyGeometry
       \<and> position (GPXTrack3D extrude points bnds sw md peh) = []
       \<and> index (GPXTrack3D extrude points bnds sw md peh) = None"
  using assms by (simp add: GPXTrack3D_def emptyGeometry_def)

theorem short_track_empty_witness:
  "GPXTrack3D (\<lambda>shape d. \<lparr>position = map (\<lambda>v. (vx v, vy v, d)) (pts shape), index = None\<rparr>)
      [\<lparr>lat = JNum 0.5, lon = JNum 0.5\<rparr>]
      \<lparr>north = JNum 1, south = JNum 0, east = JNum 1, west = JNum 0\<rparr> (JNum 2)
      (Some \<lparr>width = JNum 100, depth = JNum 100\<rparr>) None = emptyGeometry"
  using short_track_empty [of "[\<lparr>lat = JNum 0.5, lon = JNum 0.5\<rparr>]"
      "\<lambda>shape d. \<lparr>position = map (\<lambda>v. (vx v, vy v, d)) (pts shape), index = None\<rparr>"
      "\<lparr>north = JNum 1, south = JNum 0, east = JNum 1, west = JNum 0\<rparr>" "JNum 2"
      "Some \<lparr>width = JNum 100, depth = JNum 100\<rparr>" None]
  by simp

section \<open>One projection for buildings, foundation and track\<close>

text \<open>
  On the same coordinates, bounds and model dimensions, the projection of the buildings,
  that of the foundation and that of the track give the same planar points: the three
  sites hold the same expression.
\<close>

lemma projection_shared:
  "Building3D_points \<lparr>geometry = cs, tags = t\<rparr> bnds md
     = Foundation3D_points \<lparr>geometry = cs, tags = t\<rparr> bnds md
   \<and> Foundation3D_points \<lparr>geometry = cs, tags = t\<rparr> bnds md
     = GPXTrack3D_pathPoints cs bnds md"
  by (simp add: points_defs)

lemma points_default_dimensions:
  "Building3D_points b bnds None
     = Building3D_points b bnds (Some \<lparr>width = JNum 1000, depth = JNum 1000\<rparr>)"
  "Foundation3D_points b bnds None
     = Foundation3D_points b bnds (Some \<lparr>width = JNum 1000, depth = JNum 1000\<rparr>)"
  "GPXTrack3D_pathPoints ps bnds None
     = GPXTrack3D_pathPoints ps bnds (Some \<lparr>width = JNum 1000, depth = JNum 1000\<rparr>)"
  by (simp_all add: points_defs)

lemma components_default_dimensions:
  "Foundation3D extrude bs bnds None
     = Foundation3D extrude bs bnds (Some \<lparr>width = JNum 1000, depth = JNum 1000\<rparr>)"
  "Building3D extrude b bnds None oh hm
     = Building3D extrude b bnds (Some \<lparr>width = JNum 1000, depth = JNum 1000\<rparr>) oh hm"
  "GPXTrack3D extrude ps bnds sw None peh
     = GPXTrack3D extrude ps bnds sw (Some \<lparr>width = JNum 1000, depth = JNum 1000\<rparr>) peh"
  by (simp_all add: points_default_dimensions Foundation3D_def Foundation3D_allShapes_filter
      Building3D_def GPXTrack3D_def)

lemma scene_default_dimensions:
  "Scene3D extrude (props\<lparr>modelDimensions := None\<rparr>)
     = Scene3D extrude
         (props\<lparr>modelDimensions := Some \<lparr>width = JNum 1000, depth = JNum 1000\<rparr>\<rparr>)"
  by (simp add: Scene3D_def Scene3D_buildings_def components_default_dimensions
      split: option.split sum.split)

text \<open>The points projected with a width and a depth of 1000.\<close>

lemma points_1000:
  assumes "e \<noteq> w" and "n \<noteq> s"
  shows "Building3D_points
           \<lparr>geometry = map (\<lambda>(la, lo). \<lparr>lat = JNum la, lon = JNum lo\<rparr>) cs, tags = t\<rparr>
           \<lparr>north = JNum n, south = JNum s, east = JNum e, west = JNum w\<rparr> None
         = map (\<lambda>(la, lo). Vector2 (JNum (((lo - w) / (e - w) - 0.5) * 1000))
                                   (JNum (- ((la - s) / (n - s) - 0.5) * 1000))) cs"
    and "Foundation3D_points
           \<lparr>geometry = map (\<lambda>(la, lo). \<lparr>lat = JNum la, lon = JNum lo\<rparr>) cs, tags = t\<rparr>
           \<lparr>north = JNum n, south = JNum s, east = JNum e, west = JNum w\<rparr> None
         = map (\<lambda>(la, lo). Vector2 (JNum (((lo - w) / (e - w) - 0.5) * 1000))
                                   (JNum (- ((la - s) / (n - s) - 0.5) * 1000))) cs"
    and "GPXTrack3D_pathPoints
           (map (\<lambda>(la, lo). \<lparr>lat = JNum la, lon = JNum lo\<rparr>) cs)
           \<lparr>north = JNum n, south = JNum s, east = JNum e, west = JNum w\<rparr> None
         = map (\<lambda>(la, lo). Vector2 (JNum (((lo - w) / (e - w) - 0.5) * 1000))
                                   (JNum (- ((la - s) / (n - s) - 0.5) * 1000))) cs"
  using assms by (simp_all add: points_defs jsub_def split_def)

text \<open>
  C10. With no model dimensions, on finite coordinates and bounds with \<open>east \<noteq> west\<close> and
  \<open>north \<noteq> south\<close>, each of the three projections computes
  \<open>x = ((lon - west) / (east - west) - 0.5) * 1000\<close> and
  \<open>z = -((lat - south) / (north - south) - 0.5) * 1000\<close>; the building, the foundation and
  the track are extruded from these points, in the components and in the scene; and the
  scene is what it is with a width and a depth of 1000.
\<close>

theorem projection_default_dimensions:
  assumes "e \<noteq> w" and "n \<noteq> s"
  shows
    "Building3D_points
        \<lparr>geometry = map (\<lambda>(la, lo). \<lparr>lat = JNum la, lon = JNum lo\<rparr>) cs, tags = t\<rparr>
        \<lparr>north = JNum n, south = JNum s, east = JNum e, west = JNum w\<rparr> None
      = map (\<lambda>(la, lo). Vector2 (JNum (((lo - w) / (e - w) - 0.5) * 1000))
                                (JNum (- ((la - s) / (n - s) - 0.5) * 1000))) cs
   \<and> Foundation3D_points
        \<lparr>geometry = map (\<lambda>(la, lo). \<lparr>lat = JNum la, lon = JNum lo\<rparr>) cs, tags = t\<rparr>
        \<lparr>north = JNum n, south = JNum s, east = JNum e, west = JNum w\<rparr> None
      = map (\<lambda>(la, lo). Vector2 (JNum (((lo - w) / (e - w) - 0.5) * 1000))
                                (JNum (- ((la - s) / (n - s) - 0.5) * 1000))) cs
   \<and> GPXTrack3D_pathPoints
        (map (\<lambda>(la, lo). \<lparr>lat = JNum la, lon = JNum lo\<rparr>) cs)
        \<lparr>north = JNum n, south = JNum s, east = JNum e, west = JNum w\<rparr> None
      = map (\<lambda>(la, lo). Vector2 (JNum (((lo - w) / (e - w) - 0.5) * 1000))
                                (JNum (- ((la - s) / (n - s) - 0.5) * 1000))) cs
   \<and> (cs \<noteq> [] \<longrightarrow>
        Building3D extrude
          \<lparr>geometry = map (\<lambda>(la, lo). \<lparr>lat = JNum la, lon = JNum lo\<rparr>) cs, tags = t\<rparr>
          \<lparr>north = JNum n, south = JNum s, east = JNum e, west = JNum w\<rparr> None oh hm
        = Inr (extrude
                 \<lparr>pts = map (\<lambda>(la, lo). Vector2 (JNum (((lo - w) / (e - w) - 0.5) * 1000))
                                  (JNum (- ((la - s) / (n - s) - 0.5) * 1000))) cs,
                  closed = False\<rparr>
                 (Building3D_height hm oh)))
   \<and> (2 < length cs \<longrightarrow>
        Foundation3D extrude
          [\<lparr>geometry = map (\<lambda>(la, lo). \<lparr>lat = JNum la, lon = JNum lo\<rparr>) cs, tags = t\<rparr>]
          \<lparr>north = JNum n, south = JNum s, east = JNum e, west = JNum w\<rparr> None
        = extrude
            \<lparr>pts = map (\<lambda>(la, lo). Vector2 (JNum (((lo - w) / (e - w) - 0.5) * 1000))
                             (JNum (- ((la - s) / (n - s) - 0.5) * 1000))) cs,
             closed = False\<rparr>
            (JNum 2))
   \<and> (2 \<le> length cs \<longrightarrow>
        GPXTrack3D extrude (map (\<lambda>(la, lo). \<lparr>lat = JNum la, lon = JNum lo\<rparr>) cs)
          \<lparr>north = JNum n, south = JNum s, east = JNum e, west = JNum w\<rparr> sw None None
        = extrude
            \<lparr>pts = GPXTrack3D_expandedPath
                     (map (\<lambda>(la, lo). Vector2 (JNum (((lo - w) / (e - w) - 0.5) * 1000))
                             (JNum (- ((la - s) / (n - s) - 0.5) * 1000))) cs)
                     (jmul sw (JNum 0.5)),
             closed = True\<rparr>
            (JNum 2))
   \<and> (2 < length cs \<longrightarrow>
        Scene3D extrude
          \<lparr>osmData = Some \<lparr>buildings =
             [\<lparr>geometry = map (\<lambda>(la, lo). \<lparr>lat = JNum la, lon = JNum lo\<rparr>) cs, tags = t\<rparr>]\<rparr>,
           bounds = Some \<lparr>north = JNum n, south = JNum s, east = JNum e, west = JNum w\<rparr>,
           gpxPoints = Some (map (\<lambda>(la, lo). \<lparr>lat = JNum la, lon = JNum lo\<rparr>) cs),
           strokeWidth = Some sw,
           modelDimensions = None,
           heightRange = hr,
           pathExtrusionHeight = None\<rparr>
        = Inr \<lparr>foundationMesh =
                 Some (extrude
                   \<lparr>pts = map (\<lambda>(la, lo). Vector2 (JNum (((lo - w) / (e - w) - 0.5) * 1000))
                                    (JNum (- ((la - s) / (n - s) - 0.5) * 1000))) cs,
                    closed = False\<rparr>
                   (JNum 2)),
               buildingMeshes =
                 [extrude
                   \<lparr>pts = map (\<lambda>(la, lo). Vector2 (JNum (((lo - w) / (e - w) - 0.5) * 1000))
                                    (JNum (- ((la - s) / (n - s) - 0.5) * 1000))) cs,
                    closed = False\<rparr>
                   (Building3D_height
                      (Scene3D_buildingMapping
                         (Some \<lparr>buildings =
                            [\<lparr>geometry = map (\<lambda>(la, lo). \<lparr>lat = JNum la, lon = JNum lo\<rparr>) cs,
                              tags = t\<rparr>]\<rparr>) hr)
                      (getBuildingHeight
                         \<lparr>geometry = map (\<lambda>(la, lo). \<lparr>lat = JNum la, lon = JNum lo\<rparr>) cs,
                           tags = t\<rparr>))],
               trackMesh =
                 Some (extrude
                   \<lparr>pts = GPXTrack3D_expandedPath
                            (map (\<lambda>(la, lo). Vector2 (JNum (((lo - w) / (e - w) - 0.5) * 1000))
                                    (JNum (- ((la - s) / (n - s) - 0.5) * 1000))) cs)
                            (jmul sw (JNum 0.5)),
                    closed = True\<rparr>
                   (JNum 2))\<rparr>)
   \<and> Scene3D extrude (props\<lparr>modelDimensions := None\<rparr>)
     = Scene3D extrude
         (props\<lparr>modelDimensions := Some \<lparr>width = JNum 1000, depth = JNum 1000\<rparr>\<rparr>)"
proof (intro conjI impI)
  note p = points_1000 [OF assms]
  show "Building3D_points
        \<lparr>geometry = map (\<lambda>(la, lo). \<lparr>lat = JNum la, lon = JNum lo\<rparr>) cs, tags = t\<rparr>
        \<lparr>north = JNum n, south = JNum s, east = JNum e, west = JNum w\<rparr> None
      = map (\<lambda>(la, lo). Vector2 (JNum (((lo - w) / (e - w) - 0.5) * 1000))
                                (JNum (- ((la - s) / (n - s) - 0.5) * 1000))) cs"
    by (rule p(1))
  show "Foundation3D_points
        \<lparr>geometry = map (\<lambda>(la, lo). \<lparr>lat = JNum la, lon = JNum lo\<rparr>) cs, tags = t\<rparr>
        \<lparr>north = JNum n, south = JNum s, east = JNum e, west = JNum w\<rparr> None
      = map (\<lambda>(la, lo). Vector2 (JNum (((lo - w) / (e - w) - 0.5) * 1000))
                                (JNum (- ((la - s) / (n - s) - 0.5) * 1000))) cs"
    by (rule p(2))
  show "GPXTrack3D_pathPoints
        (map (\<lambda>(la, lo). \<lparr>lat = JNum la, lon = JNum lo\<rparr>) cs)
        \<lparr>north = JNum n, south = JNum s, east = JNum e, west = JNum w\<rparr> None
      = map (\<lambda>(la, lo). Vector2 (JNum (((lo - w) / (e - w) - 0.5) * 1000))
                                (JNum (- ((la - s) / (n - s) - 0.5) * 1000))) cs"
    by (rule p(3))
  show "Scene3D extrude (props\<lparr>modelDimensions := None\<rparr>)
     = Scene3D extrude
         (props\<lparr>modelDimensions := Some \<lparr>width = JNum 1000, depth = JNum 1000\<rparr>\<rparr>)"
    by (rule scene_default_dimensions)
next
  assume "cs \<noteq> []"
  then show "Building3D extrude
          \<lparr>geometry = map (\<lambda>(la, lo). \<lparr>lat = JNum la, lon = JNum lo\<rparr>) cs, tags = t\<rparr>
          \<lparr>north = JNum n, south = JNum s, east = JNum e, west = JNum w\<rparr> None oh hm
        = Inr (extrude
                 \<lparr>pts = map (\<lambda>(la, lo). Vector2 (JNum (((lo - w) / (e - w) - 0.5) * 1000))
                                  (JNum (- ((la - s) / (n - s) - 0.5) * 1000))) cs,
                  closed = False\<rparr>
                 (Building3D_height hm oh))"
    by (simp add: Building3D_def newShape_def points_1000(1) [OF assms])
next
  assume "2 < length cs"
  then show "Foundation3D extrude
          [\<lparr>geometry = map (\<lambda>(la, lo). \<lparr>lat = JNum la, lon = JNum lo\<rparr>) cs, tags = t\<rparr>]
          \<lparr>north = JNum n, south = JNum s, east = JNum e, west = JNum w\<rparr> None
        = extrude
            \<lparr>pts = map (\<lambda>(la, lo). Vector2 (JNum (((lo - w) / (e - w) - 0.5) * 1000))
                             (JNum (- ((la - s) / (n - s) - 0.5) * 1000))) cs,
             closed = False\<rparr>
            (JNum 2)"
    by (simp add: Foundation3D_def Foundation3D_allShapes_filter mergeFoundationGeometries_def
        points_1000(2) [OF assms])
next
  assume len: "2 < length cs"
  then have ne: "cs \<noteq> []" by auto
  from len show "Scene3D extrude
          \<lparr>osmData = Some \<lparr>buildings =
             [\<lparr>geometry = map (\<lambda>(la, lo). \<lparr>lat = JNum la, lon = JNum lo\<rparr>) cs, tags = t\<rparr>]\<rparr>,
           bounds = Some \<lparr>north = JNum n, south = JNum s, east = JNum e, west = JNum w\<rparr>,
           gpxPoints = Some (map (\<lambda>(la, lo). \<lparr>lat = JNum la, lon = JNum lo\<rparr>) cs),
           strokeWidth = Some sw,
           modelDimensions = None,
           heightRange = hr,
           pathExtrusionHeight = None\<rparr>
        = Inr \<lparr>foundationMesh =
                 Some (extrude
                   \<lparr>pts = map (\<lambda>(la, lo). Vector2 (JNum (((lo - w) / (e - w) - 0.5) * 1000))
                                    (JNum (- ((la - s) / (n - s) - 0.5) * 1000))) cs,
                    closed = False\<rparr>
                   (JNum 2)),
               buildingMeshes =
                 [extrude
                   \<lparr>pts = map (\<lambda>(la, lo). Vector2 (JNum (((lo - w) / (e - w) - 0.5) * 1000))
                                    (JNum (- ((la - s) / (n - s) - 0.5) * 1000))) cs,
                    closed = False\<rparr>
                   (Building3D_height
                      (Scene3D_buildingMapping
                         (Some \<lparr>buildings =
                            [\<lparr>geometry = map (\<lambda>(la, lo). \<lparr>lat = JNum la, lon = JNum lo\<rparr>) cs,
                              tags = t\<rparr>]\<rparr>) hr)
                      (getBuildingHeight
                         \<lparr>geometry = map (\<lambda>(la, lo). \<lparr>lat = JNum la, lon = JNum lo\<rparr>) cs,
                           tags = t\<rparr>))],
               trackMesh =
                 Some (extrude
                   \<lparr>pts = GPXTrack3D_expandedPath
                            (map (\<lambda>(la, lo). Vector2 (JNum (((lo - w) / (e - w) - 0.5) * 1000))
                                    (JNum (- ((la - s) / (n - s) - 0.5) * 1000))) cs)
                            (jmul sw (JNum 0.5)),
                    closed = True\<rparr>
                   (JNum 2))\<rparr>"
    using ne
    by (simp add: Scene3D_def Scene3D_buildings_def Building3D_def newShape_def
        Foundation3D_def Foundation3D_allShapes_filter mergeFoundationGeometries_def
        GPXTrack3D_def Let_def points_1000 [OF assms])
next
  assume "2 \<le> length cs"
  then show "GPXTrack3D extrude (map (\<lambda>(la, lo). \<lparr>lat = JNum la, lon = JNum lo\<rparr>) cs)
          \<lparr>north = JNum n, south = JNum s, east = JNum e, west = JNum w\<rparr> sw None None
        = extrude
            \<lparr>pts = GPXTrack3D_expandedPath
                     (map (\<lambda>(la, lo). Vector2 (JNum (((lo - w) / (e - w) - 0.5) * 1000))
                             (JNum (- ((la - s) / (n - s) - 0.5) * 1000))) cs)
                     (jmul sw (JNum 0.5)),
             closed = True\<rparr>
            (JNum 2)"
    by (simp add: GPXTrack3D_def Let_def points_1000(3) [OF assms])
qed

theorem projection_default_dimensions_witness:
  "Building3D_points
      \<lparr>geometry = [\<lparr>lat = JNum 1, lon = JNum 0\<rparr>, \<lparr>lat = JNum 0, lon = JNum 1\<rparr>,
                    \<lparr>lat = JNum (1 / 2), lon = JNum (1 / 2)\<rparr>], tags = Map.empty\<rparr>
      \<lparr>north = JNum 1, south = JNum 0, east = JNum 1, west = JNum 0\<rparr> None
    = [Vector2 (JNum (- 500)) (JNum (- 500)), Vector2 (JNum 500) (JNum 500),
       Vector2 (JNum 0) (JNum 0)]
   \<and> GPXTrack3D_pathPoints
      [\<lparr>lat = JNum 1, lon = JNum 0\<rparr>, \<lparr>lat = JNum 0, lon = JNum 1\<rparr>,
       \<lparr>lat = JNum (1 / 2), lon = JNum (1 / 2)\<rparr>]
      \<lparr>north = JNum 1, south = JNum 0, east = JNum 1, west = JNum 0\<rparr> None
    = [Vector2 (JNum (- 500)) (JNum (- 500)), Vector2 (JNum 500) (JNum 500),
       Vector2 (JNum 0) (JNum 0)]
   \<and> Foundation3D
      (\<lambda>shape d. \<lparr>position = map (\<lambda>v. (vx v, vy v, d)) (pts shape), index = None\<rparr>)
      [\<lparr>geometry = [\<lparr>lat = JNum 1, lon = JNum 0\<rparr>, \<lparr>lat = JNum 0, lon = JNum 1\<rparr>,
                     \<lparr>lat = JNum (1 / 2), lon = JNum (1 / 2)\<rparr>], tags = Map.empty\<rparr>]
      \<lparr>north = JNum 1, south = JNum 0, east = JNum 1, west = JNum 0\<rparr> None
    = \<lparr>position = [(JNum (- 500), JNum (- 500), JNum 2), (JNum 500, JNum 500, JNum 2),
                    (JNum 0, JNum 0, JNum 2)],
       index = None\<rparr>"
  using projection_default_dimensions
    [where e = 1 and w = 0 and n = 1 and s = 0 and t = Map.empty
       and cs = "[(1, 0), (0, 1), (1 / 2, 1 / 2)]"
       and extrude = "\<lambda>shape d. \<lparr>position = map (\<lambda>v. (vx v, vy v, d)) (pts shape),
                                   index = None\<rparr>"
       and oh = "JNum 6" and sw = "JNum 2" and hr = None
       and hm = "\<lparr>min_h = JNum 5, max_h = JNum 7, minMM = JNum 5, maxMM = JNum 30\<rparr>"
       and props = "\<lparr>osmData = None, bounds = None, gpxPoints = (None :: coord list option),
                      strokeWidth = None, modelDimensions = None, heightRange = None,
                      pathExtrusionHeight = None\<rparr>"]
  by simp

end
